theory Spec2Isabelle
  imports Complex_Main
begin

section \<open>Tensors\<close>

text \<open>
  The two modules of \<^verbatim>\<open>assignment_3/code\<close> compute with PyTorch tensors of floating-point
  numbers. Here a tensor entry is a real number: arithmetic is exact, so rounding and
  overflow are not part of the model. A tensor of shape \<open>[D]\<close> is a \<open>real list\<close>, a batch
  of shape \<open>[B, D]\<close> a list of \<open>B\<close> rows, and a per-example accumulator of shape \<open>[B]\<close> a
  \<open>real list\<close> again. Elementwise operations pair the entries of two rows of equal length;
  the theorems below state the shapes they need.
\<close>

definition vmul :: "real list \<Rightarrow> real list \<Rightarrow> real list" where
  "vmul a b = map2 (*) a b"

definition vadd :: "real list \<Rightarrow> real list \<Rightarrow> real list" where
  "vadd a b = map2 (+) a b"

definition vsub :: "real list \<Rightarrow> real list \<Rightarrow> real list" where
  "vsub a b = map2 (-) a b"

text \<open>\<^verbatim>\<open>1 - mask\<close>: the scalar is broadcast over the tensor.\<close>

definition one_minus :: "real list \<Rightarrow> real list" where
  "one_minus m = map (\<lambda>x. 1 - x) m"

text \<open>
  \<^verbatim>\<open>x.chunk(2, -1)\<close> cuts the last dimension into two pieces, the first of
  \<open>\<lceil>n / 2\<rceil>\<close> entries.
\<close>

definition chunk2 :: "real list \<Rightarrow> real list \<times> real list" where
  "chunk2 xs = (let k = (length xs + 1) div 2 in (take k xs, drop k xs))"

section \<open>The coupling network\<close>

text \<open>\<^verbatim>\<open>nn.Linear(n_in, n_out)\<close> holds a weight of shape \<open>[n_out, n_in]\<close> and a bias of
  shape \<open>[n_out]\<close>, and maps \<open>x\<close> to \<open>x W\<^sup>T + b\<close>.\<close>

record Linear =
  weight :: "real list list"
  bias :: "real list"

definition Linear_forward :: "Linear \<Rightarrow> real list \<Rightarrow> real list" where
  "Linear_forward L x = map2 (\<lambda>row b. sum_list (vmul row x) + b) (weight L) (bias L)"

text \<open>
  The constructor draws the initial entries at random. A draw is a pair of functions giving
  the entry at each index of the weight and of the bias, so the shapes are the constructor's
  and only the entries are arbitrary.
\<close>

type_synonym draw = "(nat \<Rightarrow> nat \<Rightarrow> real) \<times> (nat \<Rightarrow> real)"

definition Linear_init :: "nat \<Rightarrow> nat \<Rightarrow> draw \<Rightarrow> Linear" where
  "Linear_init n_in n_out r =
     \<lparr>weight = map (\<lambda>i. map (\<lambda>j. fst r i j) [0..<n_in]) [0..<n_out],
      bias = map (snd r) [0..<n_out]\<rparr>"

definition Linear_shape :: "nat \<Rightarrow> nat \<Rightarrow> Linear \<Rightarrow> bool" where
  "Linear_shape n_in n_out L \<longleftrightarrow>
     length (weight L) = n_out \<and> list_all (\<lambda>row. length row = n_in) (weight L) \<and>
     length (bias L) = n_out"

definition ReLU :: "real list \<Rightarrow> real list" where
  "ReLU x = map (\<lambda>v. max 0 v) x"

datatype module = Lin Linear | Relu

fun module_forward :: "module \<Rightarrow> real list \<Rightarrow> real list" where
  "module_forward (Lin L) x = Linear_forward L x"
| "module_forward Relu x = ReLU x"

text \<open>\<^verbatim>\<open>torch.nn.Sequential\<close> feeds each module the output of the one before.\<close>

definition Sequential_forward :: "module list \<Rightarrow> real list \<Rightarrow> real list" where
  "Sequential_forward ms x = fold module_forward ms x"

section \<open>Coupling\<close>

record Coupling =
  c_in :: nat
  n_hidden :: nat
  mask :: "real list"
  nn :: "module list"

text \<open>\<^verbatim>\<open>tensor.data.zero_()\<close> overwrites every entry with zero.\<close>

definition zero_mat :: "real list list \<Rightarrow> real list list" where
  "zero_mat w = map (map (\<lambda>_. 0)) w"

definition zero_vec :: "real list \<Rightarrow> real list" where
  "zero_vec b = map (\<lambda>_. 0) b"

text \<open>
  \<^verbatim>\<open>Coupling.__init__\<close>. The framework fills the three \<^verbatim>\<open>nn.Linear\<close> modules with
  random initial values; the draws are the argument \<open>r\<close>. The last module is then zeroed.
\<close>

definition Coupling_init :: "nat \<Rightarrow> real list \<Rightarrow> nat \<Rightarrow> draw \<times> draw \<times> draw \<Rightarrow> Coupling" where
  "Coupling_init ci msk nh r =
     (case r of (r0, r2, r4) \<Rightarrow>
        (let l4 = Linear_init nh (2 * ci) r4
         in \<lparr>c_in = ci, n_hidden = nh, mask = msk,
             nn = [Lin (Linear_init ci nh r0), Relu, Lin (Linear_init nh nh r2), Relu,
                   Lin (l4\<lparr>weight := zero_mat (weight l4), bias := zero_vec (bias l4)\<rparr>)]\<rparr>))"

text \<open>The shapes \<^verbatim>\<open>__init__\<close> gives the modules, for a mask as long as an input row.\<close>

fun Sequential_shape :: "nat \<Rightarrow> nat \<Rightarrow> module list \<Rightarrow> bool" where
  "Sequential_shape ci nh [Lin l0, Relu, Lin l2, Relu, Lin l4] \<longleftrightarrow>
     Linear_shape ci nh l0 \<and> Linear_shape nh nh l2 \<and> Linear_shape nh (2 * ci) l4"
| "Sequential_shape ci nh ms \<longleftrightarrow> False"

definition Coupling_shape :: "Coupling \<Rightarrow> bool" where
  "Coupling_shape c \<longleftrightarrow>
     length (mask c) = c_in c \<and> Sequential_shape (c_in c) (n_hidden c) (nn c)"

text \<open>Line 85 for one example: \<^verbatim>\<open>s, t = self.nn(z * self.mask).chunk(2, -1)\<close>.\<close>

definition Coupling_st :: "Coupling \<Rightarrow> real list \<Rightarrow> real list \<times> real list" where
  "Coupling_st c z = chunk2 (Sequential_forward (nn c) (vmul z (mask c)))"

text \<open>Line 86: \<^verbatim>\<open>log_scale = torch.tanh(s) * (1 - self.mask)\<close>.\<close>

definition Coupling_log_scale :: "Coupling \<Rightarrow> real list \<Rightarrow> real list" where
  "Coupling_log_scale c z = vmul (map tanh (fst (Coupling_st c z))) (one_minus (mask c))"

text \<open>Line 87: \<^verbatim>\<open>t = t * (1 - self.mask)\<close>.\<close>

definition Coupling_t :: "Coupling \<Rightarrow> real list \<Rightarrow> real list" where
  "Coupling_t c z = vmul (snd (Coupling_st c z)) (one_minus (mask c))"

text \<open>Line 90 for one example: \<^verbatim>\<open>z = log_scale.exp() * (z + t)\<close>.\<close>

definition Coupling_z_forward :: "Coupling \<Rightarrow> real list \<Rightarrow> real list" where
  "Coupling_z_forward c z = vmul (map exp (Coupling_log_scale c z)) (vadd z (Coupling_t c z))"

text \<open>Line 94 for one example: \<^verbatim>\<open>z = log_scale.mul(-1).exp() * z - t\<close>.\<close>

definition Coupling_z_reverse :: "Coupling \<Rightarrow> real list \<Rightarrow> real list" where
  "Coupling_z_reverse c z =
     vsub (vmul (map exp (map (\<lambda>x. x * (- 1)) (Coupling_log_scale c z))) z) (Coupling_t c z)"

text \<open>
  \<^verbatim>\<open>Coupling.forward\<close> on a batch \<open>z\<close> of shape \<open>[B, D]\<close> and an accumulator \<open>ldj\<close> of shape
  \<open>[B]\<close>. Every tensor operation of the method acts on each example on its own, the mask
  of shape \<open>[1, D]\<close> being broadcast over the batch; \<^verbatim>\<open>sum(-1)\<close> sums over one example. In
  reverse mode the accumulator is handed back as it came.
\<close>

definition Coupling_forward ::
  "Coupling \<Rightarrow> real list list \<Rightarrow> real list \<Rightarrow> bool \<Rightarrow> real list list \<times> real list" where
  "Coupling_forward c z ldj reverse =
     (if \<not> reverse
      then (map (Coupling_z_forward c) z,
            map2 (\<lambda>l zr. l + sum_list (Coupling_log_scale c zr)) ldj z)
      else (map (Coupling_z_reverse c) z, ldj))"

section \<open>Flow\<close>

text \<open>\<^verbatim>\<open>get_mask\<close>: the 28 by 28 checkerboard, flattened row by row to shape \<open>[1, 784]\<close>.\<close>

definition get_mask :: "real list" where
  "get_mask = concat (map (\<lambda>i. map (\<lambda>j. if (i + j) mod 2 = 0 then 1 else 0) [0..<28]) [0..<28])"

datatype error = ValueError | NotImplementedError

record Flow =
  layers :: "Coupling list"
  z_shape :: nat

text \<open>
  \<^verbatim>\<open>Flow.__init__\<close>. The unpacking \<^verbatim>\<open>channels, = shape\<close> raises unless \<open>shape\<close> has exactly one
  entry. The argument \<open>r\<close> gives the random draws of the \<open>k\<close>-th coupling layer;
  \<^verbatim>\<open>n_hidden\<close> keeps its default 1024.
\<close>

definition Flow_init :: "nat list \<Rightarrow> nat \<Rightarrow> (nat \<Rightarrow> draw \<times> draw \<times> draw) \<Rightarrow> error + Flow" where
  "Flow_init shape n_flows r =
     (case shape of
        [channels] \<Rightarrow>
          Inr \<lparr>layers = concat (map (\<lambda>i. [Coupling_init channels get_mask 1024 (r (2 * i)),
                                          Coupling_init channels (one_minus get_mask) 1024 (r (2 * i + 1))])
                                 [0..<n_flows]),
               z_shape = channels\<rparr>
      | _ \<Rightarrow> Inl ValueError)"

text \<open>\<^verbatim>\<open>Flow.forward\<close>: the layers in order, or in reversed order in reverse mode.\<close>

definition Flow_forward ::
  "Flow \<Rightarrow> real list list \<Rightarrow> real list \<Rightarrow> bool \<Rightarrow> real list list \<times> real list" where
  "Flow_forward f z logdet reverse =
     (if \<not> reverse
      then fold (\<lambda>layer (z, logdet). Coupling_forward layer z logdet False) (layers f) (z, logdet)
      else fold (\<lambda>layer (z, logdet). Coupling_forward layer z logdet True) (rev (layers f)) (z, logdet))"

section \<open>Values that are not finite numbers\<close>

text \<open>
  \<^verbatim>\<open>torch.log\<close> returns \<open>-inf\<close> at zero and \<open>nan\<close> below it. Where the code takes a
  logarithm, an entry is a \<open>real option\<close>: \<open>None\<close> stands for a value that is not a finite
  number. A sum or difference with such an operand is not finite either.
\<close>

type_synonym fl = "real option"

definition fl_log :: "real \<Rightarrow> fl" where
  "fl_log x = (if 0 < x then Some (ln x) else None)"

fun fl_add :: "fl \<Rightarrow> fl \<Rightarrow> fl" where
  "fl_add (Some a) (Some b) = Some (a + b)"
| "fl_add a b = None"

fun fl_sub :: "fl \<Rightarrow> fl \<Rightarrow> fl" where
  "fl_sub (Some a) (Some b) = Some (a - b)"
| "fl_sub a b = None"

fun fl_neg :: "fl \<Rightarrow> fl" where
  "fl_neg (Some a) = Some (- a)"
| "fl_neg None = None"

definition fl_sum :: "fl list \<Rightarrow> fl" where
  "fl_sum xs = foldr fl_add xs (Some 0)"

text \<open>The tensor as a tensor of reals, when every entry is a finite number.\<close>

definition finite_rows :: "fl list list \<Rightarrow> real list list option" where
  "finite_rows z = List.those (map List.those z)"

section \<open>Model\<close>



record Model =
  flow :: Flow

text \<open>\<^verbatim>\<open>Model.__init__\<close>: \<^verbatim>\<open>Flow(shape)\<close> with the default \<^verbatim>\<open>n_flows=4\<close>.\<close>

definition Model_init :: "nat list \<Rightarrow> (nat \<Rightarrow> draw \<times> draw \<times> draw) \<Rightarrow> error + Model" where
  "Model_init shape r =
     (case Flow_init shape 4 r of Inl e \<Rightarrow> Inl e | Inr f \<Rightarrow> Inr \<lparr>flow = f\<rparr>)"


definition sigmoid :: "real \<Rightarrow> real" where
  "sigmoid x = 1 / (1 + exp (- x))"

definition alpha :: real where
  "alpha = 1 / 100000"

text \<open>
  \<^verbatim>\<open>Model.logit_normalize\<close>, statement by statement. \<^verbatim>\<open>np.prod(z.size()[1:])\<close> is the
  number of entries of one example, and \<^verbatim>\<open>torch.sum(..., dim=1)\<close> sums over each example.
  The input is a tensor of finite numbers; the logarithms decide which entries of the
  result are.
\<close>

definition logit_normalize ::
  "real list list \<Rightarrow> real list \<Rightarrow> bool \<Rightarrow> fl list list \<times> fl list" where
  "logit_normalize z logdet reverse =
     (if \<not> reverse
      then
        (let z1 = map (map (\<lambda>x. x / 256)) z;
             logdet1 = map2 (\<lambda>l zr. l - ln 256 * real (length zr)) logdet z1;
             z2 = map (map (\<lambda>x. x * (1 - alpha) + alpha * 0.5)) z1;
             logdet2 = map2 (\<lambda>l zr. fl_add (Some l)
                          (fl_sum (map (\<lambda>x. fl_sub (fl_neg (fl_log x)) (fl_log (1 - x))) zr)))
                        logdet1 z2;
             z3 = map (map (\<lambda>x. fl_sub (fl_log x) (fl_log (1 - x)))) z2
         in (z3, logdet2))
      else
        (let logdet1 = map2 (\<lambda>l zr. fl_add (Some l)
                          (fl_sum (map (\<lambda>x. fl_add (fl_log x) (fl_log (1 - x))) zr)))
                        logdet z;
             z1 = map (map sigmoid) z;
             z2 = map (map (\<lambda>x. x * 256)) z1;
             logdet2 = map2 (\<lambda>l zr. fl_add l (Some (ln 256 * real (length zr)))) logdet1 z2
         in (map (map Some) z2, logdet2)))"



section \<open>The variational autoencoder\<close>

record Encoder =
  linear1 :: Linear
  linear_mu :: Linear
  linear_std :: Linear

text \<open>\<^verbatim>\<open>Encoder.__init__\<close>, the draws of the three modules being \<open>r\<close>.\<close>

definition Encoder_init :: "nat \<Rightarrow> nat \<Rightarrow> draw \<times> draw \<times> draw \<Rightarrow> Encoder" where
  "Encoder_init hidden_dim z_dim r =
     (case r of (r1, rm, rs) \<Rightarrow>
        \<lparr>linear1 = Linear_init (28 ^ 2) hidden_dim r1,
         linear_mu = Linear_init hidden_dim z_dim rm,
         linear_std = Linear_init hidden_dim z_dim rs\<rparr>)"

text \<open>\<^verbatim>\<open>Encoder.forward\<close> on a batch: mean and std, each of shape \<open>[batch_size, z_dim]\<close>.\<close>

definition Encoder_forward :: "Encoder \<Rightarrow> real list list \<Rightarrow> real list list \<times> real list list" where
  "Encoder_forward e input =
     (let input = map (\<lambda>x. ReLU (Linear_forward (linear1 e) x)) input;
          mean = map (Linear_forward (linear_mu e)) input;
          std = map (\<lambda>x. ReLU (Linear_forward (linear_std e) x)) input
      in (mean, std))"

record Decoder =
  dec_linear1 :: Linear
  dec_linear2 :: Linear

record VAE =
  z_dim :: nat
  encoder :: Encoder
  decoder :: Decoder

text \<open>
  \<^verbatim>\<open>VAE.sample\<close> and the module's \<^verbatim>\<open>epoch_iter\<close>. Each binds its result variables to
  \<^verbatim>\<open>None\<close> and raises; the \<^verbatim>\<open>return\<close> after the \<^verbatim>\<open>raise\<close> is never reached. The state
  a call could have changed (the model, and for \<^verbatim>\<open>epoch_iter\<close> the optimizer) is returned
  beside the outcome.
\<close>

definition VAE_sample ::
  "VAE \<Rightarrow> nat \<Rightarrow> (error + real list list \<times> real list list) \<times> VAE" where
  "VAE_sample self n_samples =
     (let sampled_ims = None :: real list list option;
          im_means = None :: real list list option
      in (Inl NotImplementedError, self))"

definition epoch_iter :: "VAE \<Rightarrow> 'd \<Rightarrow> 'o \<Rightarrow> (error + real) \<times> VAE \<times> 'o" where
  "epoch_iter model data optimizer =
     (let average_epoch_elbo = None :: real option
      in (Inl NotImplementedError, model, optimizer))"

section \<open>Round trip through the logit normalization\<close>

text \<open>
  What the forward direction has made of an entry when it takes the logit: the division by
  256 and the shrinking towards 0.5.
\<close>

definition squeeze :: "real \<Rightarrow> real" where
  "squeeze x = x / 256 * (1 - alpha) + alpha * 0.5"

text \<open>
  The forward direction followed by the reverse direction on its result, when that result
  is a tensor of finite numbers.
\<close>

definition logit_roundtrip ::
  "real list list \<Rightarrow> real list \<Rightarrow> (fl list list \<times> fl list) option" where
  "logit_roundtrip z logdet =
     (case logit_normalize z logdet False of
        (y, l) \<Rightarrow>
          (case (finite_rows y, List.those l) of
             (Some y', Some l') \<Rightarrow> Some (logit_normalize y' l' True)
           | _ \<Rightarrow> None))"

text \<open>A model whose layers all have the shapes of \<open>d\<close> channels.\<close>

definition Model_shape :: "Model \<Rightarrow> nat \<Rightarrow> bool" where
  "Model_shape m d \<longleftrightarrow>
     list_all (\<lambda>c. Coupling_shape c \<and> c_in c = d) (layers (flow m)) \<and> z_shape (flow m) = d"

section \<open>Example inputs\<close>

text \<open>
  A coupling layer of two channels with one hidden unit and mask \<open>[1, 0]\<close>, whose last
  module is not zero, and a batch of one example for it.
\<close>

definition example_layer :: Coupling where
  "example_layer =
     \<lparr>c_in = 2, n_hidden = 1, mask = [1, 0],
      nn = [Lin \<lparr>weight = [[1, 1]], bias = [0]\<rparr>, Relu,
            Lin \<lparr>weight = [[1]], bias = [1]\<rparr>, Relu,
            Lin \<lparr>weight = [[1], [0], [1], [1]], bias = [0, 1, 0, 1]\<rparr>]\<rparr>"

definition example_batch :: "real list list" where
  "example_batch = [[2, 3]]"

text \<open>Draws for the three modules of a layer, and the layer \<^verbatim>\<open>__init__\<close> builds from them.\<close>

definition example_draws :: "draw \<times> draw \<times> draw" where
  "example_draws = ((\<lambda>i j. 1, \<lambda>i. 1), (\<lambda>i j. 2, \<lambda>i. 3), (\<lambda>i j. 4, \<lambda>i. 5))"

definition example_init_layer :: Coupling where
  "example_init_layer = Coupling_init 2 [1, 0] 1 example_draws"


text \<open>
  An encoder with the default sizes whose first module has bias 0 and whose \<^verbatim>\<open>linear_std\<close>
  has bias \<open>-1\<close>.
\<close>

definition example_encoder :: Encoder where
  "example_encoder =
     Encoder_init 500 20 ((\<lambda>i j. 1, \<lambda>i. 0), (\<lambda>i j. 1, \<lambda>i. 0), (\<lambda>i j. 1, \<lambda>i. - 1))"

section \<open>Shapes inside a coupling layer\<close>

lemma length_Linear_forward:
  "Linear_shape n_in n_out L \<Longrightarrow> length (Linear_forward L x) = n_out"
  by (simp add: Linear_shape_def Linear_forward_def)

lemma length_Sequential_forward:
  assumes "Coupling_shape c"
  shows "length (Sequential_forward (nn c) x) = 2 * c_in c"
proof -
  from assms have "Sequential_shape (c_in c) (n_hidden c) (nn c)"
    by (simp add: Coupling_shape_def)
  then obtain l0 l2 l4 where
    n: "nn c = [Lin l0, Relu, Lin l2, Relu, Lin l4]" and
    s: "Linear_shape (n_hidden c) (2 * c_in c) l4"
    by (auto elim: Sequential_shape.elims)
  show ?thesis
    by (simp add: n Sequential_forward_def length_Linear_forward [OF s])
qed

lemma length_Coupling_st:
  assumes "Coupling_shape c"
  shows "length (fst (Coupling_st c z)) = c_in c" and "length (snd (Coupling_st c z)) = c_in c"
  using length_Sequential_forward [OF assms, of "vmul z (mask c)"]
  by (simp_all add: Coupling_st_def chunk2_def Let_def)

lemma length_Coupling_log_scale:
  "Coupling_shape c \<Longrightarrow> length (Coupling_log_scale c z) = c_in c"
  by (simp add: Coupling_log_scale_def vmul_def one_minus_def length_Coupling_st Coupling_shape_def)

lemma length_Coupling_t:
  "Coupling_shape c \<Longrightarrow> length (Coupling_t c z) = c_in c"
  by (simp add: Coupling_t_def vmul_def one_minus_def length_Coupling_st Coupling_shape_def)

section \<open>Entries of a coupling layer's result\<close>

lemma nth_vmul: "i < length a \<Longrightarrow> i < length b \<Longrightarrow> vmul a b ! i = a ! i * b ! i"
  by (simp add: vmul_def)

lemma nth_vadd: "i < length a \<Longrightarrow> i < length b \<Longrightarrow> vadd a b ! i = a ! i + b ! i"
  by (simp add: vadd_def)

lemma nth_vsub: "i < length a \<Longrightarrow> i < length b \<Longrightarrow> vsub a b ! i = a ! i - b ! i"
  by (simp add: vsub_def)

lemma length_vmul: "length (vmul a b) = min (length a) (length b)"
  by (simp add: vmul_def)

lemma length_vadd: "length (vadd a b) = min (length a) (length b)"
  by (simp add: vadd_def)

lemma length_vsub: "length (vsub a b) = min (length a) (length b)"
  by (simp add: vsub_def)

lemma nth_Coupling_log_scale:
  assumes "Coupling_shape c" "i < c_in c"
  shows "Coupling_log_scale c z ! i = tanh (fst (Coupling_st c z) ! i) * (1 - mask c ! i)"
proof -
  have "length (mask c) = c_in c" using assms(1) by (simp add: Coupling_shape_def)
  then show ?thesis
    using assms by (simp add: Coupling_log_scale_def nth_vmul length_Coupling_st one_minus_def)
qed

lemma nth_Coupling_t:
  assumes "Coupling_shape c" "i < c_in c"
  shows "Coupling_t c z ! i = snd (Coupling_st c z) ! i * (1 - mask c ! i)"
proof -
  have "length (mask c) = c_in c" using assms(1) by (simp add: Coupling_shape_def)
  then show ?thesis
    using assms by (simp add: Coupling_t_def nth_vmul length_Coupling_st one_minus_def)
qed

lemma length_Coupling_z_forward:
  "Coupling_shape c \<Longrightarrow> length zr = c_in c \<Longrightarrow> length (Coupling_z_forward c zr) = c_in c"
  by (simp add: Coupling_z_forward_def length_vmul length_vadd length_Coupling_log_scale
      length_Coupling_t)

lemma length_Coupling_z_reverse:
  "Coupling_shape c \<Longrightarrow> length zr = c_in c \<Longrightarrow> length (Coupling_z_reverse c zr) = c_in c"
  by (simp add: Coupling_z_reverse_def length_vmul length_vsub length_Coupling_log_scale
      length_Coupling_t)

lemma nth_Coupling_z_forward:
  assumes "Coupling_shape c" "length zr = c_in c" "i < c_in c"
  shows "Coupling_z_forward c zr ! i
           = exp (Coupling_log_scale c zr ! i) * (zr ! i + Coupling_t c zr ! i)"
  using assms
  by (simp add: Coupling_z_forward_def nth_vmul nth_vadd length_vadd length_Coupling_log_scale
      length_Coupling_t)

lemma nth_Coupling_z_reverse:
  assumes "Coupling_shape c" "length zr = c_in c" "i < c_in c"
  shows "Coupling_z_reverse c zr ! i
           = exp (- Coupling_log_scale c zr ! i) * zr ! i - Coupling_t c zr ! i"
  using assms
  by (simp add: Coupling_z_reverse_def nth_vmul nth_vsub length_vmul length_Coupling_log_scale
      length_Coupling_t)

lemma example_layer_shape: "Coupling_shape example_layer"
  by (simp add: example_layer_def Coupling_shape_def Linear_shape_def)

section \<open>The masked half\<close>

text \<open>
  Claim C4. Whatever the parameters of the coupling network, the input batch and the
  accumulator, the coupling transform returns every coordinate at which the mask is 1 as
  it received it, in the forward and in the reverse direction.
\<close>

theorem coupling_masked_unchanged:
  assumes "Coupling_shape c" and "b < length z" and "length (z ! b) = c_in c"
    and "i < c_in c" and "mask c ! i = 1"
  shows "fst (Coupling_forward c z ldj reverse) ! b ! i = z ! b ! i"
  using assms
  by (simp add: Coupling_forward_def nth_Coupling_z_forward nth_Coupling_z_reverse
      nth_Coupling_log_scale nth_Coupling_t)

theorem coupling_masked_unchanged_witness:
  "Coupling_shape example_layer \<and> (0::nat) < length example_batch \<and>
   length (example_batch ! 0) = c_in example_layer \<and> 0 < c_in example_layer \<and>
   mask example_layer ! 0 = 1 \<and>
   fst (Coupling_forward example_layer example_batch [0] False) ! 0 ! 0 = 2 \<and>
   fst (Coupling_forward example_layer example_batch [0] True) ! 0 ! 0 = 2"
  using coupling_masked_unchanged [of example_layer 0 example_batch 0 "[0]" False]
    coupling_masked_unchanged [of example_layer 0 example_batch 0 "[0]" True]
    example_layer_shape
  by (simp add: example_layer_def example_batch_def)

section \<open>The reverse direction\<close>

text \<open>
  Claim C5. In reverse mode the coupling transform returns, at every coordinate,
  \<open>exp (- log_scale) * z - t\<close>, where \<open>log_scale = tanh s * (1 - mask)\<close> and
  \<open>t = t_raw * (1 - mask)\<close> come from the two halves \<open>(s, t_raw)\<close> of the network's output
  on \<open>z * mask\<close>; the result has the shape of the input, and the accumulator is returned
  exactly as it was passed.
\<close>

theorem coupling_reverse:
  assumes "Coupling_shape c" and "list_all (\<lambda>zr. length zr = c_in c) z"
  shows "snd (Coupling_forward c z ldj True) = ldj \<and>
         length (fst (Coupling_forward c z ldj True)) = length z \<and>
         (\<forall>b < length z. length (fst (Coupling_forward c z ldj True) ! b) = c_in c \<and>
            (\<forall>i < c_in c.
               fst (Coupling_forward c z ldj True) ! b ! i
                 = exp (- (tanh (fst (Coupling_st c (z ! b)) ! i) * (1 - mask c ! i))) * z ! b ! i
                   - snd (Coupling_st c (z ! b)) ! i * (1 - mask c ! i)))"
  using assms
  by (simp add: Coupling_forward_def nth_Coupling_z_reverse nth_Coupling_log_scale
      nth_Coupling_t length_Coupling_z_reverse list_all_length)

theorem coupling_reverse_witness:
  "Coupling_shape example_layer \<and>
   list_all (\<lambda>zr. length zr = c_in example_layer) example_batch \<and>
   snd (Coupling_forward example_layer example_batch [7] True) = [7]"
  using coupling_reverse [of example_layer example_batch "[7]"] example_layer_shape
  by (simp add: example_layer_def example_batch_def)

section \<open>Invertibility\<close>

lemma Coupling_z_forward_mask:
  assumes "Coupling_shape c" "length zr = c_in c" "list_all (\<lambda>m. m = 0 \<or> m = 1) (mask c)"
  shows "vmul (Coupling_z_forward c zr) (mask c) = vmul zr (mask c)"
proof (rule nth_equalityI)
  have lm: "length (mask c) = c_in c" using assms(1) by (simp add: Coupling_shape_def)
  show "length (vmul (Coupling_z_forward c zr) (mask c)) = length (vmul zr (mask c))"
    by (simp add: length_vmul length_Coupling_z_forward assms lm)
  fix i assume "i < length (vmul (Coupling_z_forward c zr) (mask c))"
  then have i: "i < c_in c" by (simp add: length_vmul length_Coupling_z_forward assms lm)
  then have "mask c ! i = 0 \<or> mask c ! i = 1"
    using assms(3) lm by (simp add: list_all_length)
  then show "vmul (Coupling_z_forward c zr) (mask c) ! i = vmul zr (mask c) ! i"
    using i assms(1,2) lm
    by (auto simp: nth_vmul length_Coupling_z_forward nth_Coupling_z_forward
        nth_Coupling_log_scale nth_Coupling_t)
qed

lemma Coupling_z_reverse_forward:
  assumes "Coupling_shape c" "length zr = c_in c" "list_all (\<lambda>m. m = 0 \<or> m = 1) (mask c)"
  shows "Coupling_z_reverse c (Coupling_z_forward c zr) = zr"
proof (rule nth_equalityI)
  show "length (Coupling_z_reverse c (Coupling_z_forward c zr)) = length zr"
    by (simp add: length_Coupling_z_reverse length_Coupling_z_forward assms)
  have st: "Coupling_st c (Coupling_z_forward c zr) = Coupling_st c zr"
    by (simp add: Coupling_st_def Coupling_z_forward_mask [OF assms])
  have ls: "Coupling_log_scale c (Coupling_z_forward c zr) = Coupling_log_scale c zr"
    and t: "Coupling_t c (Coupling_z_forward c zr) = Coupling_t c zr"
    by (simp_all add: Coupling_log_scale_def Coupling_t_def st)
  fix i assume "i < length (Coupling_z_reverse c (Coupling_z_forward c zr))"
  then have i: "i < c_in c"
    by (simp add: length_Coupling_z_reverse length_Coupling_z_forward assms)
  have "Coupling_z_reverse c (Coupling_z_forward c zr) ! i
        = exp (- Coupling_log_scale c zr ! i)
            * (exp (Coupling_log_scale c zr ! i) * (zr ! i + Coupling_t c zr ! i))
          - Coupling_t c zr ! i"
    using i assms(1,2)
    by (simp add: nth_Coupling_z_reverse length_Coupling_z_forward nth_Coupling_z_forward ls t)
  also have "\<dots> = zr ! i"
    by (simp add: exp_minus field_simps)
  finally show "Coupling_z_reverse c (Coupling_z_forward c zr) ! i = zr ! i" .
qed

text \<open>
  Claim C2. For every mask with entries 0 and 1, every setting of the coupling network's
  parameters, every accumulator and every input batch, the coupling transform in reverse
  mode, applied to the result of the forward direction, returns the original batch. Over
  the reals the reconstruction is exact.
\<close>

theorem coupling_invertible:
  assumes "Coupling_shape c" and "list_all (\<lambda>m. m = 0 \<or> m = 1) (mask c)"
    and "list_all (\<lambda>zr. length zr = c_in c) z"
  shows "fst (Coupling_forward c (fst (Coupling_forward c z ldj False)) ldj' True) = z"
proof -
  have "map (Coupling_z_reverse c) (map (Coupling_z_forward c) z) = z"
    using assms(3) by (induction z) (simp_all add: Coupling_z_reverse_forward assms(1,2))
  then show ?thesis by (simp add: Coupling_forward_def)
qed

theorem coupling_invertible_witness:
  "Coupling_shape example_layer \<and> list_all (\<lambda>m. m = 0 \<or> m = 1) (mask example_layer) \<and>
   list_all (\<lambda>zr. length zr = c_in example_layer) example_batch \<and>
   fst (Coupling_forward example_layer
          (fst (Coupling_forward example_layer example_batch [0] False)) [5] True)
     = example_batch"
  using coupling_invertible [of example_layer example_batch "[0]" "[5]"] example_layer_shape
  by (simp add: example_layer_def example_batch_def)

section \<open>The unimplemented functions of the autoencoder\<close>

text \<open>
  Claim C10. Every call of \<^verbatim>\<open>VAE.sample\<close> and every call of the autoencoder module's
  \<^verbatim>\<open>epoch_iter\<close> ends in \<^verbatim>\<open>NotImplementedError\<close>: no result is produced, and the model
  and the optimizer are as they were before the call.
\<close>

theorem vae_not_implemented:
  "VAE_sample self n_samples = (Inl NotImplementedError, self) \<and>
   epoch_iter model data optimizer = (Inl NotImplementedError, model, optimizer)"
  by (simp add: VAE_sample_def epoch_iter_def)

section \<open>Identity at initialization\<close>

lemma sum_list_vmul_zero: "sum_list (vmul (map (\<lambda>_. 0) row) x) = 0"
proof -
  have "vmul (map (\<lambda>_. 0) row) x = map (\<lambda>_. 0) (zip row x)"
    by (simp add: vmul_def zip_map1 case_prod_beta)
  then show ?thesis by simp
qed

lemma Linear_forward_zero:
  assumes "weight L = zero_mat (weight L)" "bias L = zero_vec (bias L)"
  shows "Linear_forward L x = replicate (min (length (weight L)) (length (bias L))) 0"
proof (rule nth_equalityI)
  show "length (Linear_forward L x) = length (replicate (min (length (weight L)) (length (bias L))) (0::real))"
    by (simp add: Linear_forward_def)
  fix i assume "i < length (Linear_forward L x)"
  then have i: "i < length (weight L)" "i < length (bias L)"
    by (simp_all add: Linear_forward_def)
  have "weight L ! i = zero_mat (weight L) ! i" using assms(1) by simp
  then have w: "weight L ! i = map (\<lambda>_. 0) (weight L ! i)"
    using i by (simp add: zero_mat_def)
  have "bias L ! i = zero_vec (bias L) ! i" using assms(2) by simp
  then have b: "bias L ! i = 0" using i by (simp add: zero_vec_def)
  have "sum_list (vmul (weight L ! i) x) = 0"
    using sum_list_vmul_zero [of "weight L ! i" x] w by simp
  then show "Linear_forward L x ! i = replicate (min (length (weight L)) (length (bias L))) 0 ! i"
    using i b by (simp add: Linear_forward_def)
qed

lemma Coupling_st_zero:
  assumes "Coupling_shape c" "last (nn c) = Lin l4"
    "weight l4 = zero_mat (weight l4)" "bias l4 = zero_vec (bias l4)"
  shows "Coupling_st c z = (replicate (c_in c) 0, replicate (c_in c) 0)"
proof -
  from assms(1) have "Sequential_shape (c_in c) (n_hidden c) (nn c)"
    by (simp add: Coupling_shape_def)
  then obtain l0 l2 l4' where
    n: "nn c = [Lin l0, Relu, Lin l2, Relu, Lin l4']" and
    s: "Linear_shape (n_hidden c) (2 * c_in c) l4'"
    by (auto elim: Sequential_shape.elims)
  from n assms(2) have l: "l4' = l4" by simp
  have "Sequential_forward (nn c) (vmul z (mask c)) = replicate (2 * c_in c) 0"
    using s Linear_forward_zero [OF assms(3,4)]
    by (simp add: n l Sequential_forward_def Linear_shape_def)
  then show ?thesis
    by (simp add: Coupling_st_def chunk2_def Let_def)
qed

lemma Coupling_zero_rows:
  assumes "Coupling_shape c" "last (nn c) = Lin l4"
    "weight l4 = zero_mat (weight l4)" "bias l4 = zero_vec (bias l4)"
  shows "Coupling_log_scale c z = replicate (c_in c) 0" "Coupling_t c z = replicate (c_in c) 0"
proof -
  have lm: "length (mask c) = c_in c" using assms(1) by (simp add: Coupling_shape_def)
  show "Coupling_log_scale c z = replicate (c_in c) 0"
    by (rule nth_equalityI)
      (simp_all add: Coupling_log_scale_def Coupling_st_zero [OF assms] length_vmul nth_vmul
        one_minus_def lm)
  show "Coupling_t c z = replicate (c_in c) 0"
    by (rule nth_equalityI)
      (simp_all add: Coupling_t_def Coupling_st_zero [OF assms] length_vmul nth_vmul
        one_minus_def lm)
qed

lemma Coupling_zero_z:
  assumes "Coupling_shape c" "last (nn c) = Lin l4"
    "weight l4 = zero_mat (weight l4)" "bias l4 = zero_vec (bias l4)" "length zr = c_in c"
  shows "Coupling_z_forward c zr = zr" "Coupling_z_reverse c zr = zr"
proof -
  show "Coupling_z_forward c zr = zr"
    by (rule nth_equalityI)
      (simp_all add: length_Coupling_z_forward nth_Coupling_z_forward assms(1,5)
        Coupling_zero_rows [OF assms(1-4)])
  show "Coupling_z_reverse c zr = zr"
    by (rule nth_equalityI)
      (simp_all add: length_Coupling_z_reverse nth_Coupling_z_reverse assms(1,5)
        Coupling_zero_rows [OF assms(1-4)])
qed

lemma map2_add_zero: "length ldj = length z \<Longrightarrow> map2 (\<lambda>l zr. l) ldj z = ldj"
  by (induction ldj z rule: list_induct2) simp_all

lemma Coupling_forward_zero:
  assumes "Coupling_shape c" "last (nn c) = Lin l4"
    "weight l4 = zero_mat (weight l4)" "bias l4 = zero_vec (bias l4)"
    "list_all (\<lambda>zr. length zr = c_in c) z" "length ldj = length z"
  shows "Coupling_forward c z ldj reverse = (z, ldj)"
proof -
  have f: "map (Coupling_z_forward c) z = z" and r: "map (Coupling_z_reverse c) z = z"
    using assms(5) by (induction z) (simp_all add: Coupling_zero_z [OF assms(1-4)])
  show ?thesis
    by (simp add: Coupling_forward_def f r Coupling_zero_rows [OF assms(1-4)]
        sum_list_replicate map2_add_zero [OF assms(6)])
qed

lemma Linear_init_shape: "Linear_shape n_in n_out (Linear_init n_in n_out r)"
  by (simp add: Linear_shape_def Linear_init_def list_all_iff)

lemma Linear_zeroed_shape:
  "Linear_shape n_in n_out L \<Longrightarrow>
   Linear_shape n_in n_out (L\<lparr>weight := zero_mat (weight L), bias := zero_vec (bias L)\<rparr>)"
  by (simp add: Linear_shape_def zero_mat_def zero_vec_def list_all_iff)

lemma Coupling_init_shape:
  assumes "length msk = ci"
  shows "Coupling_shape (Coupling_init ci msk nh r)"
proof -
  obtain r0 r2 r4 where r: "r = (r0, r2, r4)" by (rule prod_cases3)
  show ?thesis
    using assms
    by (simp add: r Coupling_shape_def Coupling_init_def Let_def Linear_init_shape
        Linear_zeroed_shape)
qed

lemma Coupling_init_zero:
  "\<exists>l4. last (nn (Coupling_init ci msk nh r)) = Lin l4 \<and> weight l4 = zero_mat (weight l4)
        \<and> bias l4 = zero_vec (bias l4)"
proof -
  obtain r0 r2 r4 where r: "r = (r0, r2, r4)" by (rule prod_cases3)
  show ?thesis
    by (simp add: r Coupling_init_def Let_def zero_mat_def zero_vec_def)
qed

lemma c_in_Coupling_init: "c_in (Coupling_init ci msk nh r) = ci"
proof -
  obtain r0 r2 r4 where r: "r = (r0, r2, r4)" by (rule prod_cases3)
  show ?thesis by (simp add: r Coupling_init_def Let_def)
qed

lemma Coupling_init_identity:
  assumes "length msk = ci" "list_all (\<lambda>zr. length zr = ci) z" "length ldj = length z"
  shows "Coupling_forward (Coupling_init ci msk nh r) z ldj reverse = (z, ldj)"
proof -
  obtain l4 where l: "last (nn (Coupling_init ci msk nh r)) = Lin l4"
    "weight l4 = zero_mat (weight l4)" "bias l4 = zero_vec (bias l4)"
    using Coupling_init_zero by blast
  note ci = c_in_Coupling_init [of ci msk nh r]
  show ?thesis
    using Coupling_forward_zero [OF Coupling_init_shape [OF assms(1)] l, of z ldj reverse] assms(2,3)
    by (simp add: ci)
qed

lemma length_get_mask: "length get_mask = 784"
  by (simp add: get_mask_def length_concat comp_def sum_list_triv)

lemma get_mask_binary: "list_all (\<lambda>m. m = 0 \<or> m = 1) get_mask"
  by (auto simp: get_mask_def list_all_iff)

text \<open>
  Claim C3. A coupling layer whose last linear module has all weights and biases zero, the
  state \<^verbatim>\<open>Coupling.__init__\<close> leaves it in, returns every input batch and every accumulator
  unchanged: it is the identity and adds zero to \<open>ldj\<close>. In particular the flow of two
  freshly built layers (the mask, then its complement), run forwards on a batch of 4
  examples of dimension 784 with a zero accumulator, returns the batch itself and
  \<open>ldj = 0\<close> for each example, whatever the random initial values of the other modules.
\<close>

theorem zero_init_identity:
  assumes "Coupling_shape c" and "last (nn c) = Lin l4"
    and "weight l4 = zero_mat (weight l4)" and "bias l4 = zero_vec (bias l4)"
    and "list_all (\<lambda>zr. length zr = c_in c) z" and "length ldj = length z"
    and "length x = 4" and "list_all (\<lambda>xr. length xr = 784) x"
  shows "Coupling_forward c z ldj reverse = (z, ldj) \<and>
         (\<exists>f. Flow_init [784] 1 r = Inr f \<and> length (layers f) = 2 \<and>
              Flow_forward f x (replicate 4 0) False = (x, replicate 4 0))"
proof -
  have "Flow_forward \<lparr>layers = [Coupling_init 784 get_mask 1024 (r 0),
                                Coupling_init 784 (one_minus get_mask) 1024 (r 1)],
                      z_shape = 784\<rparr> x (replicate 4 0) False = (x, replicate 4 0)"
    using assms(7,8)
    by (simp add: Flow_forward_def Coupling_init_identity length_get_mask one_minus_def)
  then show ?thesis
    using Coupling_forward_zero [OF assms(1-6)] by (simp add: Flow_init_def)
qed


lemma upt4: "[0..<4] = [0, 1, 2, 3]" by (simp add: upt_rec)

theorem zero_init_identity_witness:
  "Coupling_shape example_init_layer \<and>
   last (nn example_init_layer) = Lin \<lparr>weight = [[0], [0], [0], [0]], bias = [0, 0, 0, 0]\<rparr> \<and>
   list_all (\<lambda>zr. length zr = c_in example_init_layer) example_batch \<and>
   length [0::real] = length example_batch \<and>
   length (replicate 4 (replicate 784 (1::real))) = 4 \<and>
   list_all (\<lambda>xr. length xr = 784) (replicate 4 (replicate 784 (1::real))) \<and>
   Coupling_forward example_init_layer example_batch [0] False = (example_batch, [0]) \<and>
   (\<exists>f. Flow_init [784] 1 (\<lambda>k. example_draws) = Inr f \<and> length (layers f) = 2 \<and>
        Flow_forward f (replicate 4 (replicate 784 1)) (replicate 4 0) False
          = (replicate 4 (replicate 784 1), replicate 4 0))"
  using zero_init_identity [of example_init_layer
      "\<lparr>weight = [[0], [0], [0], [0]], bias = [0, 0, 0, 0]\<rparr>" example_batch "[0]"
      "replicate 4 (replicate 784 1)" False "\<lambda>k. example_draws"]
    Coupling_init_shape [of "[1, 0]" 2 1 example_draws]
  by (simp add: example_init_layer_def example_batch_def c_in_Coupling_init
      Coupling_init_def example_draws_def Linear_init_def zero_mat_def zero_vec_def upt4 list_all_iff)

section \<open>The logit normalization\<close>

lemma squeeze_bounds: "0 \<le> x \<Longrightarrow> x \<le> 256 \<Longrightarrow> 0 < squeeze x \<and> squeeze x < 1"
proof -
  assume a: "0 \<le> x" "x \<le> 256"
  have 1: "squeeze x = x * (99999 / 25600000) + 1 / 200000"
    by (simp add: squeeze_def alpha_def field_simps)
  from a show ?thesis unfolding 1 by simp
qed

lemma those_map_Some [simp]: "List.those (map Some xs) = Some xs"
  by (induction xs) simp_all

lemma finite_rows_Some [simp]: "finite_rows (map (map Some) z) = Some z"
proof -
  have "map List.those (map (map Some) z) = map Some z"
    by (induction z) simp_all
  then show ?thesis unfolding finite_rows_def by (simp only: those_map_Some)
qed

lemma fl_sum_Some: "fl_sum (map (\<lambda>x. Some (f x)) xs) = Some (sum_list (map f xs))"
  by (induction xs) (simp_all add: fl_sum_def)

lemma fl_sum_cong_Some:
  assumes "\<And>x. x \<in> set xs \<Longrightarrow> g x = Some (f x)"
  shows "fl_sum (map g xs) = Some (sum_list (map f xs))"
proof -
  have m: "map g xs = map (\<lambda>x. Some (f x)) xs" using assms by simp
  show ?thesis unfolding m by (rule fl_sum_Some)
qed

lemma logit_forward:
  assumes "list_all (list_all (\<lambda>x. 0 \<le> x \<and> x \<le> 256)) z"
  shows "logit_normalize z logdet False =
           (map (map Some) (map (map (\<lambda>x. ln (squeeze x) - ln (1 - squeeze x))) z),
            map Some (map2 (\<lambda>l zr. l - ln 256 * real (length zr)
                     + sum_list (map (\<lambda>x. - ln (squeeze x) - ln (1 - squeeze x)) zr)) logdet z))"
proof -
  have e: "fl_log (squeeze x) = Some (ln (squeeze x)) \<and> fl_log (1 - squeeze x) = Some (ln (1 - squeeze x))"
    if "0 \<le> x \<and> x \<le> 256" for x
    using squeeze_bounds [of x] that by (simp add: fl_log_def)
  have row: "list_all (\<lambda>x. 0 \<le> x \<and> x \<le> 256) zr" if "zr \<in> set z" for zr
    using assms that by (simp add: list_all_iff)
  have z3: "map (map (\<lambda>x. fl_sub (fl_log x) (fl_log (1 - x))))
              (map (map (\<lambda>x. x * (1 - alpha) + alpha * 0.5)) (map (map (\<lambda>x. x / 256)) z))
            = map (map Some) (map (map (\<lambda>x. ln (squeeze x) - ln (1 - squeeze x))) z)"
    using row e by (auto simp: comp_def squeeze_def list_all_iff)
  have s: "fl_sum (map (\<lambda>x. fl_sub (fl_neg (fl_log x)) (fl_log (1 - x)))
                    (map (\<lambda>x. x * (1 - alpha) + alpha * 0.5) (map (\<lambda>x. x / 256) zr)))
           = Some (sum_list (map (\<lambda>x. - ln (squeeze x) - ln (1 - squeeze x)) zr))"
    if "zr \<in> set z" for zr
  proof -
    have "fl_sum (map (\<lambda>x. fl_sub (fl_neg (fl_log (squeeze x))) (fl_log (1 - squeeze x))) zr)
          = Some (sum_list (map (\<lambda>x. - ln (squeeze x) - ln (1 - squeeze x)) zr))"
      using row [OF that] e by (intro fl_sum_cong_Some) (simp add: list_all_iff)
    then show ?thesis by (simp add: comp_def squeeze_def)
  qed
  have l2: "map2 (\<lambda>l zr. fl_add (Some l)
                (fl_sum (map (\<lambda>x. fl_sub (fl_neg (fl_log x)) (fl_log (1 - x))) zr)))
              (map2 (\<lambda>l zr. l - ln 256 * real (length zr)) logdet (map (map (\<lambda>x. x / 256)) z))
              (map (map (\<lambda>x. x * (1 - alpha) + alpha * 0.5)) (map (map (\<lambda>x. x / 256)) z))
            = map Some (map2 (\<lambda>l zr. l - ln 256 * real (length zr)
                     + sum_list (map (\<lambda>x. - ln (squeeze x) - ln (1 - squeeze x)) zr)) logdet z)"
  proof (rule nth_equalityI)
    show "length (map2 (\<lambda>l zr. fl_add (Some l)
                (fl_sum (map (\<lambda>x. fl_sub (fl_neg (fl_log x)) (fl_log (1 - x))) zr)))
              (map2 (\<lambda>l zr. l - ln 256 * real (length zr)) logdet (map (map (\<lambda>x. x / 256)) z))
              (map (map (\<lambda>x. x * (1 - alpha) + alpha * 0.5)) (map (map (\<lambda>x. x / 256)) z)))
          = length (map Some (map2 (\<lambda>l zr. l - ln 256 * real (length zr)
                     + sum_list (map (\<lambda>x. - ln (squeeze x) - ln (1 - squeeze x)) zr)) logdet z))"
      by simp
    fix i
    assume "i < length (map2 (\<lambda>l zr. fl_add (Some l)
                (fl_sum (map (\<lambda>x. fl_sub (fl_neg (fl_log x)) (fl_log (1 - x))) zr)))
              (map2 (\<lambda>l zr. l - ln 256 * real (length zr)) logdet (map (map (\<lambda>x. x / 256)) z))
              (map (map (\<lambda>x. x * (1 - alpha) + alpha * 0.5)) (map (map (\<lambda>x. x / 256)) z)))"
    then have i: "i < length logdet" "i < length z" by simp_all
    then have "z ! i \<in> set z" by simp
    from s [OF this] i
    show "map2 (\<lambda>l zr. fl_add (Some l)
                (fl_sum (map (\<lambda>x. fl_sub (fl_neg (fl_log x)) (fl_log (1 - x))) zr)))
              (map2 (\<lambda>l zr. l - ln 256 * real (length zr)) logdet (map (map (\<lambda>x. x / 256)) z))
              (map (map (\<lambda>x. x * (1 - alpha) + alpha * 0.5)) (map (map (\<lambda>x. x / 256)) z)) ! i
          = map Some (map2 (\<lambda>l zr. l - ln 256 * real (length zr)
                     + sum_list (map (\<lambda>x. - ln (squeeze x) - ln (1 - squeeze x)) zr)) logdet z) ! i"
      by simp
  qed
  show ?thesis
    unfolding logit_normalize_def Let_def using z3 l2 by simp
qed

lemma logit_roundtrip_eq:
  assumes "logit_normalize z logdet False = (map (map Some) y, map Some l)"
  shows "logit_roundtrip z logdet = Some (logit_normalize y l True)"
  by (simp add: logit_roundtrip_def assms)

lemma sigmoid_logit:
  assumes "0 < p" "p < 1"
  shows "sigmoid (ln p - ln (1 - p)) = p"
proof -
  have "exp (- (ln p - ln (1 - p))) = (1 - p) / p"
    using assms by (simp add: exp_minus exp_diff field_simps)
  then have "sigmoid (ln p - ln (1 - p)) = 1 / (1 + (1 - p) / p)"
    unfolding sigmoid_def by simp
  also have "\<dots> = p" using assms by (simp add: field_simps)
  finally show ?thesis .
qed


lemma fst_logit_reverse:
  "fst (logit_normalize y l True) = map (map (\<lambda>x. Some (sigmoid x * 256))) y"
  by (simp add: logit_normalize_def Let_def comp_def)

lemma logit_forward_single:
  assumes "0 \<le> x" "x \<le> 256"
  shows "logit_normalize [[x]] [l] False
           = (map (map Some) [[ln (squeeze x) - ln (1 - squeeze x)]],
              map Some [l - ln 256 + (- ln (squeeze x) - ln (1 - squeeze x))])"
  using logit_forward [of "[[x]]" "[l]"] assms by simp

text \<open>
  Claim C1, as amended. For every batch whose entries lie strictly inside \<open>(0, 256)\<close> and every
  accumulator, the forward direction of \<^verbatim>\<open>logit_normalize\<close> followed by the reverse
  direction returns, at each coordinate, \<open>z * (1 - alpha) + 128 * alpha\<close> with
  \<open>alpha = 1e-5\<close>: the reverse direction undoes the logit and the division by 256 but
  not the shrinking towards 0.5, so the result is off by \<open>alpha * (128 - z)\<close>.
\<close>

theorem logit_roundtrip_shrinks:
  assumes "list_all (list_all (\<lambda>x. 0 < x \<and> x < 256)) z" and "length logdet = length z"
  shows "map_option fst (logit_roundtrip z logdet)
           = Some (map (map (\<lambda>x. Some (x * (1 - alpha) + 128 * alpha))) z)"
proof -
  have r: "list_all (list_all (\<lambda>x. 0 \<le> x \<and> x \<le> 256)) z"
    using assms(1) by (fastforce simp: list_all_iff intro: less_imp_le)
  have "sigmoid (ln (squeeze x) - ln (1 - squeeze x)) * 256 = x * (1 - alpha) + 128 * alpha"
    if "0 < x \<and> x < 256" for x
  proof -
    have "sigmoid (ln (squeeze x) - ln (1 - squeeze x)) = squeeze x"
      using squeeze_bounds [of x] that by (intro sigmoid_logit) simp_all
    then show ?thesis by (simp add: squeeze_def)
  qed
  then have "map (map (\<lambda>x. Some (sigmoid x * 256)))
               (map (map (\<lambda>x. ln (squeeze x) - ln (1 - squeeze x))) z)
             = map (map (\<lambda>x. Some (x * (1 - alpha) + 128 * alpha))) z"
    using assms(1) by (auto simp: list_all_iff)
  then show ?thesis
    unfolding logit_roundtrip_eq [OF logit_forward [OF r]]
    by (simp only: option.map fst_logit_reverse)
qed

theorem logit_roundtrip_shrinks_witness:
  "list_all (list_all (\<lambda>x. 0 < x \<and> x < 256)) [[64, 200 :: real]] \<and>
   length [0 :: real] = length [[64, 200 :: real]] \<and>
   map_option fst (logit_roundtrip [[64, 200]] [0])
     = Some [[Some (64 * (1 - alpha) + 128 * alpha), Some (200 * (1 - alpha) + 128 * alpha)]]"
  using logit_roundtrip_shrinks [of "[[64, 200]]" "[0]"] by simp

text \<open>
  Claim C1 as stated fails: the input \<open>1\<close> comes back as \<open>1.00127\<close>, more than a
  thousandth away, where single-precision rounding accounts for about \<open>1e-7\<close>.
\<close>

theorem logit_roundtrip_counterexample:
  "map_option fst (logit_roundtrip [[1]] [0]) = Some [[Some (100127 / 100000)]] \<and>
   \<bar>100127 / 100000 - 1\<bar> > (1 / 1000 :: real)"
proof -
  have f: "logit_normalize [[1]] [0] False
             = (map (map Some) [[ln (squeeze 1) - ln (1 - squeeze 1)]],
                map Some [0 - ln 256 + (- ln (squeeze 1) - ln (1 - squeeze 1))])"
    by (rule logit_forward_single) simp_all
  have "sigmoid (ln (squeeze 1) - ln (1 - squeeze 1)) = squeeze 1"
    using squeeze_bounds [of 1] by (intro sigmoid_logit) simp_all
  then show ?thesis
    unfolding logit_roundtrip_eq [OF f]
    by (simp add: fst_logit_reverse squeeze_def alpha_def)
qed

lemma snd_logit_reverse_single:
  assumes "0 < y" "y < 1"
  shows "snd (logit_normalize [[y]] [l] True) = [Some (l + (ln y + ln (1 - y)) + ln 256)]"
  using assms by (simp add: logit_normalize_def Let_def fl_log_def fl_sum_def)

lemma squeeze_160: "squeeze 160 = 62499875 / 100000000"
  by (simp add: squeeze_def alpha_def)

lemma logit_160_bounds:
  "1 - squeeze 160 < ln (squeeze 160) - ln (1 - squeeze 160)"
  "ln (squeeze 160) - ln (1 - squeeze 160) < squeeze 160"
proof -
  define P :: real where "P = 62499875 / 100000000"
  have P: "0 < P" "P < 1" "0 < 1 - P" by (simp_all add: P_def)
  have e: "exp (ln P - ln (1 - P)) = P / (1 - P)"
    using P by (simp add: exp_diff)
  have "exp (1 - P) \<le> 1 + (1 - P) + (1 - P)\<^sup>2"
    using P by (intro exp_bound) simp_all
  also have "\<dots> < P / (1 - P)"
    by (simp add: P_def power2_eq_square)
  finally have "exp (1 - P) < exp (ln P - ln (1 - P))" by (simp add: e)
  then have 1: "1 - P < ln P - ln (1 - P)" by simp
  have "P / (1 - P) < 1 + P + P\<^sup>2 / 2"
    by (simp add: P_def power2_eq_square)
  also have "\<dots> \<le> exp P"
    using P by (intro exp_lower_Taylor_quadratic) simp
  finally have "exp (ln P - ln (1 - P)) < exp P" by (simp add: e)
  then have 2: "ln P - ln (1 - P) < P" by simp
  from 1 show "1 - squeeze 160 < ln (squeeze 160) - ln (1 - squeeze 160)"
    by (simp only: squeeze_160 P_def)
  from 2 show "ln (squeeze 160) - ln (1 - squeeze 160) < squeeze 160"
    by (simp only: squeeze_160 P_def)
qed

text \<open>
  Claim C6 does not hold of the code. The reverse direction adds \<open>log z + log (1 - z)\<close>
  taken at its input, the value before the sigmoid, where the forward direction added
  \<open>- log p - log (1 - p)\<close> at the value \<open>p\<close> the sigmoid returns. For the pixel value 160 and
  accumulator 0, the forward direction followed by the reverse direction leaves an
  accumulator that is a finite number other than 0: the two adjustments do not cancel.
\<close>

theorem logit_reverse_ldj_not_restored:
  "map_option snd (logit_roundtrip [[160]] [0]) \<noteq> Some [Some 0] \<and>
   map_option snd (logit_roundtrip [[160]] [0]) \<noteq> Some [None]"
proof -
  define P where "P = squeeze 160"
  define Y where "Y = ln P - ln (1 - P)"
  have P: "0 < P" "P < 1" using squeeze_bounds [of 160] by (simp_all add: P_def)
  have Y: "1 - P < Y" "Y < P" using logit_160_bounds by (simp_all add: Y_def P_def)
  then have Y01: "0 < Y" "Y < 1" using P by simp_all
  have f: "logit_normalize [[160]] [0] False
             = (map (map Some) [[Y]], map Some [0 - ln 256 + (- ln P - ln (1 - P))])"
    using logit_forward_single [of 160 0] by (simp add: Y_def P_def)
  have r: "map_option snd (logit_roundtrip [[160]] [0])
             = Some [Some ((ln Y + ln (1 - Y)) - (ln P + ln (1 - P)))]"
    unfolding logit_roundtrip_eq [OF f]
    by (simp add: snd_logit_reverse_single [OF Y01])
  have "0 < (P - Y) * (P + Y - 1)" using Y by simp
  then have "P * (1 - P) < Y * (1 - Y)" by (simp add: algebra_simps)
  moreover have "0 < P * (1 - P)" using P by simp
  ultimately have "ln (P * (1 - P)) < ln (Y * (1 - Y))"
    by (subst ln_less_cancel_iff) (auto intro: less_trans)
  then have "ln P + ln (1 - P) < ln Y + ln (1 - Y)"
    using P Y01 by (simp add: ln_mult)
  then show ?thesis unfolding r by simp
qed

section \<open>The likelihood and the sampler\<close>









text \<open>
  The model \<^verbatim>\<open>main\<close> builds, \<^verbatim>\<open>Model(shape=[784])\<close>, has eight layers of 784 channels,
  whatever the random initial values.
\<close>

lemma Model_init_shape:
  "\<exists>m. Model_init [784] r = Inr m \<and> Model_shape m 784 \<and> length (layers (flow m)) = 8"
  by (simp add: Model_init_def Flow_init_def Model_shape_def list_all_iff Coupling_init_shape
      length_get_mask one_minus_def c_in_Coupling_init length_concat comp_def sum_list_triv)









section \<open>The encoder\<close>

lemma sum_list_vmul_replicate_zero: "sum_list (vmul row (replicate k 0)) = 0"
proof -
  have "vmul row (replicate k 0) = replicate (min (length row) k) 0"
    by (rule nth_equalityI) (simp_all add: vmul_def)
  then show ?thesis by (simp add: sum_list_replicate)
qed

lemma Linear_init_forward_zero:
  "Linear_forward (Linear_init n_in n_out r) (replicate k 0) = map (snd r) [0..<n_out]"
  by (rule nth_equalityI)
    (simp_all add: Linear_forward_def Linear_init_def sum_list_vmul_replicate_zero)

text \<open>
  Claim C9 does not hold of the code: \<^verbatim>\<open>ReLU\<close> returns 0 wherever its argument is not
  positive. For an all-black image and an encoder whose \<^verbatim>\<open>linear_std\<close> has bias \<open>-1\<close>,
  every coordinate of \<open>std\<close> is 0.
\<close>

theorem encoder_std_zero:
  "snd (Encoder_forward example_encoder [replicate 784 0]) = [replicate 20 0]"
proof -
  have h: "ReLU (map (\<lambda>i. 0) [0..<500]) = replicate 500 0"
    by (rule nth_equalityI) (simp_all add: ReLU_def)
  have s: "ReLU (map (\<lambda>i. - 1) [0..<20]) = replicate 20 0"
    by (rule nth_equalityI) (simp_all add: ReLU_def)
  show ?thesis
    by (simp add: Encoder_forward_def example_encoder_def Encoder_init_def Let_def
        Linear_init_forward_zero h s)
qed

end
